theory Spec2Isabelle
  imports Complex_Main
begin

section \<open>Data model (app/models, app/schemas)\<close>

text \<open>
  The tables of the application are lists of rows in insertion order. Identifiers are the
  strings of the \<^verbatim>\<open>String(36)\<close> primary keys. The columns \<^verbatim>\<open>date\<close>,
  \<^verbatim>\<open>created_at\<close> and \<^verbatim>\<open>updated_at\<close> are filled by the database clock and read by
  no operation below; they are left out. \<^verbatim>\<open>Float\<close> columns and \<^verbatim>\<open>float\<close> fields are
  real numbers. The CRUD layer below computes on them exactly, and its statements are to be
  read in exact arithmetic; the section on floating-point arithmetic repeats the item
  operations with the rounding of each arithmetic result as a parameter, and gives the
  rounding of IEEE doubles. A column declared
  without \<^verbatim>\<open>nullable=False\<close> that a request can set to \<^verbatim>\<open>None\<close> is an option.
\<close>

type_synonym ident = string

datatype CustomerType = CUSTOMER | CLIENT

datatype InvoiceStatus = DRAFT | SENT | PAID | OVERDUE | CANCELLED

datatype PaymentMethod = CASH | BANK_TRANSFER | CREDIT_CARD | PAYPAL | CHECK

datatype PaymentStatus = PENDING | COMPLETED | FAILED | REFUNDED

record User =
  u_id :: ident
  u_name :: string
  u_email :: string
  u_password_hash :: string
  u_is_super_admin :: "bool option"

record Customer =
  c_id :: ident
  c_name :: string
  c_email :: string
  c_phone :: "string option"
  c_type :: CustomerType

record Invoice =
  inv_id :: ident
  inv_user_id :: ident
  inv_customer_id :: ident
  inv_status :: "InvoiceStatus option"
  inv_total_amount :: real
  inv_is_paid :: "bool option"

record InvoiceItem =
  it_id :: ident
  it_invoice_id :: ident
  it_description :: string
  it_quantity :: int
  it_unit_price :: real
  it_total :: real

record Payment =
  p_id :: ident
  p_user_id :: ident
  p_invoice_id :: ident
  p_amount :: real
  p_method :: PaymentMethod
  p_status :: "PaymentStatus option"

text \<open>
  A field of an update schema is \<^verbatim>\<open>Optional[...] = None\<close> and the update functions read
  \<^verbatim>\<open>dict(exclude_unset=True)\<close>: a field that the request leaves out (\<open>Unset\<close>) differs
  from one that it sets to \<^verbatim>\<open>null\<close> (\<open>Null\<close>) and from one that carries a value.
\<close>

datatype 'a field = Unset | Null | Given 'a

record UserCreate =
  uc_name :: string
  uc_email :: string
  uc_is_super_admin :: bool
  uc_password :: string



record InvoiceItemUpdate =
  iu_description :: "string field"
  iu_quantity :: "int field"
  iu_unit_price :: "real field"




record PaymentUpdate =
  pu_amount :: "real field"
  pu_method :: "PaymentMethod field"
  pu_status :: "PaymentStatus field"

record db =
  users :: "User list"
  customers :: "Customer list"
  invoices :: "Invoice list"
  invoice_items :: "InvoiceItem list"
  payments :: "Payment list"

text \<open>
  What an operation can raise: Python's \<^verbatim>\<open>TypeError\<close>, the \<^verbatim>\<open>IntegrityError\<close> of a
  commit that violates a \<^verbatim>\<open>NOT NULL\<close> or \<^verbatim>\<open>UNIQUE\<close> constraint, and the
  \<^verbatim>\<open>HTTPException\<close>s of the routers, named by their status code. An operation that
  raises commits nothing: its result carries no new database.
\<close>

datatype error =
    TypeError
  | IntegrityError
  | HTTP_400_BAD_REQUEST
  | HTTP_403_FORBIDDEN
  | HTTP_404_NOT_FOUND

section \<open>Helpers for Python and the object-relational mapper\<close>


text \<open>
  \<^verbatim>\<open>setattr(row, field, value)\<close> for each field of \<^verbatim>\<open>dict(exclude_unset=True)\<close>: the
  attribute afterwards, \<open>None\<close> when the request set it to \<^verbatim>\<open>null\<close>.
\<close>

fun setattr :: "'a field \<Rightarrow> 'a option \<Rightarrow> 'a option" where
  "setattr Unset old = old"
| "setattr Null old = None"
| "setattr (Given v) old = Some v"


text \<open>The truth value of \<^verbatim>\<open>current_user.is_super_admin\<close>: \<^verbatim>\<open>None\<close> is false.\<close>

definition is_super_admin :: "User \<Rightarrow> bool" where
  "is_super_admin current_user = (u_is_super_admin current_user = Some True)"

text \<open>The relationships \<^verbatim>\<open>Invoice.items\<close> and \<^verbatim>\<open>Invoice.payments\<close>, loaded by foreign key.\<close>

definition items_of :: "db \<Rightarrow> Invoice \<Rightarrow> InvoiceItem list" where
  "items_of d invoice = filter (\<lambda>it. it_invoice_id it = inv_id invoice) (invoice_items d)"

text \<open>
  Modelled from the spec: the session factory of \<^verbatim>\<open>app/database.py\<close> is not among the
  sources. A payment that was added to the session and not yet committed is not part of
  \<^verbatim>\<open>invoice.payments\<close>: the spec adds the new payment's amount to the completed payments
  on record, and the test suite builds its sessions with \<^verbatim>\<open>autoflush=False\<close>.
\<close>

definition payments_of :: "db \<Rightarrow> Invoice \<Rightarrow> Payment list" where
  "payments_of d invoice = filter (\<lambda>p. p_invoice_id p = inv_id invoice) (payments d)"

text \<open>The database after an operation: unchanged when the operation raised.\<close>

fun db_after :: "db \<Rightarrow> error + (db \<times> 'a) \<Rightarrow> db" where
  "db_after d (Inl e) = d"
| "db_after d (Inr (d', r)) = d'"

section \<open>The CRUD layer (app/crud.py)\<close>

subsection \<open>Users\<close>


definition get_user_by_email :: "db \<Rightarrow> string \<Rightarrow> User option" where
  "get_user_by_email d email = find (\<lambda>u. u_email u = email) (users d)"

text \<open>
  \<open>get_password_hash\<close> (app/auth.py, not among the sources) and the outcome of
  \<^verbatim>\<open>uuid.uuid4()\<close> are parameters: \<open>uuid k\<close> is the identifier drawn for the \<open>k\<close>-th
  row that the operation adds. The column \<^verbatim>\<open>email\<close> is \<^verbatim>\<open>unique=True\<close>.
\<close>

definition create_user ::
  "(string \<Rightarrow> string) \<Rightarrow> db \<Rightarrow> (nat \<Rightarrow> ident) \<Rightarrow> UserCreate \<Rightarrow> error + (db \<times> User)" where
  "create_user get_password_hash d uuid user =
     (let hashed_password = get_password_hash (uc_password user);
          db_user = \<lparr>u_id = uuid 0,
                     u_name = uc_name user,
                     u_email = uc_email user,
                     u_password_hash = hashed_password,
                     u_is_super_admin = Some (uc_is_super_admin user)\<rparr>
      in if list_ex (\<lambda>u. u_email u = uc_email user) (users d) then Inl IntegrityError
         else Inr (d\<lparr>users := users d @ [db_user]\<rparr>, db_user))"

text \<open>
  A commit writes a changed row with \<^verbatim>\<open>UPDATE ... WHERE id = ?\<close> and removes a deleted
  one with \<^verbatim>\<open>DELETE ... WHERE id = ?\<close>.
\<close>

definition replace_by :: "('a \<Rightarrow> ident) \<Rightarrow> ident \<Rightarrow> 'a \<Rightarrow> 'a list \<Rightarrow> 'a list" where
  "replace_by key k row rows = map (\<lambda>r. if key r = k then row else r) rows"

definition delete_by :: "('a \<Rightarrow> ident) \<Rightarrow> ident \<Rightarrow> 'a list \<Rightarrow> 'a list" where
  "delete_by key k rows = filter (\<lambda>r. key r \<noteq> k) rows"



subsection \<open>Customers\<close>


subsection \<open>Invoices\<close>

definition get_invoice :: "db \<Rightarrow> ident \<Rightarrow> Invoice option" where
  "get_invoice d invoice_id = find (\<lambda>i. inv_id i = invoice_id) (invoices d)"

text \<open>
  \<^verbatim>\<open>if user_id:\<close> is false for \<^verbatim>\<open>None\<close> and for the empty string. \<open>skip\<close> and
  \<open>limit\<close> are the \<^verbatim>\<open>OFFSET\<close> and \<^verbatim>\<open>LIMIT\<close> of the query, taken as natural numbers
  (what a database does with a negative one is not modelled).
\<close>

definition get_invoices :: "db \<Rightarrow> ident option \<Rightarrow> nat \<Rightarrow> nat \<Rightarrow> Invoice list" where
  "get_invoices d user_id skip limit =
     (let query = invoices d;
          query = (case user_id of
                     None \<Rightarrow> query
                   | Some uid \<Rightarrow>
                       if uid \<noteq> [] then filter (\<lambda>i. inv_user_id i = uid) query else query)
      in take limit (drop skip query))"



text \<open>
  \<^verbatim>\<open>Invoice.items\<close> is declared with \<^verbatim>\<open>cascade="all, delete-orphan"\<close>: the items of the
  invoice are deleted with it, each by its primary key. \<^verbatim>\<open>Invoice.payments\<close> has no
  cascade: deleting an invoice that has payments sets their \<^verbatim>\<open>invoice_id\<close> to
  \<^verbatim>\<open>NULL\<close>, which the \<^verbatim>\<open>nullable=False\<close> column refuses.
\<close>

definition delete_invoice :: "db \<Rightarrow> ident \<Rightarrow> error + (db \<times> bool)" where
  "delete_invoice d invoice_id =
     (case get_invoice d invoice_id of
        None \<Rightarrow> Inr (d, False)
      | Some db_invoice \<Rightarrow>
          if payments_of d db_invoice \<noteq> [] then Inl IntegrityError
          else Inr (d\<lparr>invoices := delete_by inv_id invoice_id (invoices d),
                      invoice_items :=
                        foldr (\<lambda>it. delete_by it_id (it_id it)) (items_of d db_invoice)
                          (invoice_items d)\<rparr>,
                    True))"

subsection \<open>Invoice items\<close>

text \<open>
  The query \<^verbatim>\<open>db.query(models.InvoiceItem).filter(models.InvoiceItem.id == item_id).first()\<close>
  of \<open>update_invoice_item\<close>, \<open>delete_invoice_item\<close> and the routers.
\<close>

definition query_invoice_item :: "db \<Rightarrow> ident \<Rightarrow> InvoiceItem option" where
  "query_invoice_item d item_id = find (\<lambda>it. it_id it = item_id) (invoice_items d)"


text \<open>
  \<^verbatim>\<open>db_item.quantity * db_item.unit_price\<close> raises \<^verbatim>\<open>TypeError\<close> when the request set
  one of the two to \<^verbatim>\<open>null\<close>; a \<^verbatim>\<open>null\<close> description fails at the commit
  (\<^verbatim>\<open>nullable=False\<close>).
\<close>

definition update_invoice_item ::
  "db \<Rightarrow> ident \<Rightarrow> InvoiceItemUpdate \<Rightarrow> error + (db \<times> InvoiceItem option)" where
  "update_invoice_item d item_id item_update =
     (case query_invoice_item d item_id of
        None \<Rightarrow> Inr (d, None)
      | Some db_item \<Rightarrow>
          (let old_total = it_total db_item;
               description = setattr (iu_description item_update) (Some (it_description db_item));
               quantity = setattr (iu_quantity item_update) (Some (it_quantity db_item));
               unit_price = setattr (iu_unit_price item_update) (Some (it_unit_price db_item))
           in case (quantity, unit_price) of
                (Some q, Some price) \<Rightarrow>
                  (let total = of_int q * price;
                       invoices' =
                         (case get_invoice d (it_invoice_id db_item) of
                            None \<Rightarrow> invoices d
                          | Some invoice \<Rightarrow>
                              replace_by inv_id (inv_id invoice)
                                (invoice\<lparr>inv_total_amount :=
                                            inv_total_amount invoice - old_total + total\<rparr>)
                                (invoices d))
                   in case description of
                        None \<Rightarrow> Inl IntegrityError
                      | Some descr \<Rightarrow>
                          (let row = db_item\<lparr>it_description := descr,
                                             it_quantity := q,
                                             it_unit_price := price,
                                             it_total := total\<rparr>
                           in Inr (d\<lparr>invoices := invoices',
                                     invoice_items :=
                                       replace_by it_id item_id row (invoice_items d)\<rparr>,
                                   Some row)))
              | _ \<Rightarrow> Inl TypeError))"


subsection \<open>Payments\<close>

definition get_payment :: "db \<Rightarrow> ident \<Rightarrow> Payment option" where
  "get_payment d payment_id = find (\<lambda>p. p_id p = payment_id) (payments d)"

definition get_payments ::
  "db \<Rightarrow> ident option \<Rightarrow> ident option \<Rightarrow> nat \<Rightarrow> nat \<Rightarrow> Payment list" where
  "get_payments d user_id invoice_id skip limit =
     (let query = payments d;
          query = (case user_id of
                     None \<Rightarrow> query
                   | Some uid \<Rightarrow>
                       if uid \<noteq> [] then filter (\<lambda>p. p_user_id p = uid) query else query);
          query = (case invoice_id of
                     None \<Rightarrow> query
                   | Some iid \<Rightarrow>
                       if iid \<noteq> [] then filter (\<lambda>p. p_invoice_id p = iid) query else query)
      in take limit (drop skip query))"


text \<open>\<^verbatim>\<open>amount\<close> and \<^verbatim>\<open>method\<close> are \<^verbatim>\<open>nullable=False\<close>; \<^verbatim>\<open>status\<close> is not.\<close>

definition update_payment ::
  "db \<Rightarrow> ident \<Rightarrow> PaymentUpdate \<Rightarrow> error + (db \<times> Payment option)" where
  "update_payment d payment_id payment_update =
     (case get_payment d payment_id of
        None \<Rightarrow> Inr (d, None)
      | Some db_payment \<Rightarrow>
          (case (setattr (pu_amount payment_update) (Some (p_amount db_payment)),
                 setattr (pu_method payment_update) (Some (p_method db_payment))) of
             (Some amount, Some method) \<Rightarrow>
               (let row = db_payment\<lparr>p_amount := amount,
                                     p_method := method,
                                     p_status :=
                                       setattr (pu_status payment_update)
                                         (p_status db_payment)\<rparr>
                in Inr (d\<lparr>payments := replace_by p_id payment_id row (payments d)\<rparr>,
                        Some row))
           | _ \<Rightarrow> Inl IntegrityError))"

definition delete_payment :: "db \<Rightarrow> ident \<Rightarrow> db \<times> bool" where
  "delete_payment d payment_id =
     (case get_payment d payment_id of
        None \<Rightarrow> (d, False)
      | Some db_payment \<Rightarrow> (d\<lparr>payments := delete_by p_id payment_id (payments d)\<rparr>, True))"

section \<open>The routers (app/routers)\<close>

text \<open>
  \<open>current_user\<close> is the user that \<^verbatim>\<open>auth.get_current_user\<close> resolved from the bearer
  token. An endpoint whose name is also the name of the CRUD function it calls carries the
  suffix \<open>_endpoint\<close>.
\<close>

subsection \<open>auth.py\<close>

definition register ::
  "(string \<Rightarrow> string) \<Rightarrow> db \<Rightarrow> (nat \<Rightarrow> ident) \<Rightarrow> UserCreate \<Rightarrow> error + (db \<times> User)" where
  "register get_password_hash d uuid user =
     (case get_user_by_email d (uc_email user) of
        Some db_user \<Rightarrow> Inl HTTP_400_BAD_REQUEST
      | None \<Rightarrow> create_user get_password_hash d uuid user)"

subsection \<open>invoices.py\<close>

definition read_invoices :: "db \<Rightarrow> User \<Rightarrow> nat \<Rightarrow> nat \<Rightarrow> Invoice list" where
  "read_invoices d current_user skip limit =
     (let user_id = (if is_super_admin current_user then None else Some (u_id current_user))
      in get_invoices d user_id skip limit)"




subsection \<open>payments.py\<close>

definition read_payments :: "db \<Rightarrow> User \<Rightarrow> ident option \<Rightarrow> nat \<Rightarrow> nat \<Rightarrow> Payment list" where
  "read_payments d current_user invoice_id skip limit =
     (let user_id = (if is_super_admin current_user then None else Some (u_id current_user))
      in get_payments d user_id invoice_id skip limit)"




subsection \<open>users.py\<close>





section \<open>Notions of the specification\<close>












section \<open>An example database\<close>

definition root :: User where
  "root = \<lparr>u_id = ''u0'', u_name = ''Root'', u_email = ''root@example.com'',
           u_password_hash = ''#r'', u_is_super_admin = Some True\<rparr>"

definition alice :: User where
  "alice = \<lparr>u_id = ''u1'', u_name = ''Alice'', u_email = ''alice@example.com'',
            u_password_hash = ''#a'', u_is_super_admin = Some False\<rparr>"

definition bob :: User where
  "bob = \<lparr>u_id = ''u2'', u_name = ''Bob'', u_email = ''bob@example.com'',
          u_password_hash = ''#b'', u_is_super_admin = Some False\<rparr>"

definition acme :: Customer where
  "acme = \<lparr>c_id = ''c1'', c_name = ''Acme'', c_email = ''office@acme.example'',
           c_phone = None, c_type = CUSTOMER\<rparr>"

definition inv1 :: Invoice where
  "inv1 = \<lparr>inv_id = ''i1'', inv_user_id = ''u1'', inv_customer_id = ''c1'',
           inv_status = Some SENT, inv_total_amount = 250, inv_is_paid = Some False\<rparr>"

definition inv2 :: Invoice where
  "inv2 = \<lparr>inv_id = ''i2'', inv_user_id = ''u1'', inv_customer_id = ''c1'',
           inv_status = Some DRAFT, inv_total_amount = 0, inv_is_paid = Some False\<rparr>"

definition inv3 :: Invoice where
  "inv3 = \<lparr>inv_id = ''i3'', inv_user_id = ''u2'', inv_customer_id = ''c1'',
           inv_status = Some SENT, inv_total_amount = 40, inv_is_paid = Some False\<rparr>"

definition item1 :: InvoiceItem where
  "item1 = \<lparr>it_id = ''t1'', it_invoice_id = ''i1'', it_description = ''design'',
            it_quantity = 2, it_unit_price = 100, it_total = 200\<rparr>"

definition item2 :: InvoiceItem where
  "item2 = \<lparr>it_id = ''t2'', it_invoice_id = ''i1'', it_description = ''hosting'',
            it_quantity = 1, it_unit_price = 50, it_total = 50\<rparr>"

definition item3 :: InvoiceItem where
  "item3 = \<lparr>it_id = ''t3'', it_invoice_id = ''i3'', it_description = ''support'',
            it_quantity = 4, it_unit_price = 10, it_total = 40\<rparr>"

definition pay1 :: Payment where
  "pay1 = \<lparr>p_id = ''p1'', p_user_id = ''u1'', p_invoice_id = ''i1'', p_amount = 100,
           p_method = CASH, p_status = Some COMPLETED\<rparr>"

definition pay2 :: Payment where
  "pay2 = \<lparr>p_id = ''p2'', p_user_id = ''u2'', p_invoice_id = ''i3'', p_amount = 40,
           p_method = PAYPAL, p_status = Some PENDING\<rparr>"

definition db0 :: db where
  "db0 = \<lparr>users = [root, alice, bob],
          customers = [acme],
          invoices = [inv1, inv2, inv3],
          invoice_items = [item1, item2, item3],
          payments = [pay1, pay2]\<rparr>"

definition empty_db :: db where
  "empty_db = \<lparr>users = [], customers = [], invoices = [], invoice_items = [], payments = []\<rparr>"

text \<open>Identifiers for new rows: \<open>n\<close>, \<open>n+\<close>, \<open>n++\<close>, ...\<close>

definition new_ids :: "nat \<Rightarrow> ident" where
  "new_ids k = CHR ''n'' # replicate k (CHR ''+'')"

definition hash0 :: "string \<Rightarrow> string" where
  "hash0 password = CHR ''#'' # password"

definition eve_request :: UserCreate where
  "eve_request = \<lparr>uc_name = ''Eve'', uc_email = ''eve@example.com'',
                  uc_is_super_admin = True, uc_password = ''pw''\<rparr>"

definition refund :: PaymentUpdate where
  "refund = \<lparr>pu_amount = Unset, pu_method = Unset, pu_status = Given REFUNDED\<rparr>"





text \<open>The example database without the payment of invoice \<open>i1\<close>.\<close>

definition db1 :: db where
  "db1 = db0\<lparr>payments := [pay2]\<rparr>"









section \<open>Floating-point arithmetic of the amounts\<close>

text \<open>
  The amounts are Python floats, stored in \<^verbatim>\<open>Float\<close> columns: every sum, difference
  and product that the item operations compute is rounded to a double. \<open>fl64\<close> is that
  rounding: to the nearest number with 53 significant bits, a tie going to the even one.
  The bounds of the exponent (overflow, subnormal numbers), infinities and NaN are not
  modelled. \<open>bits n\<close> is the number of binary digits of \<open>n\<close>, and \<open>exponent x\<close> is the
  integer \<open>e\<close> with \<open>2 ^ e \<le> \<bar>x\<bar> < 2 ^ (e + 1)\<close>, for \<open>x\<close> other than 0.
\<close>

function bits :: "int \<Rightarrow> nat" where
  "bits n = (if n \<le> 0 then 0 else Suc (bits (n div 2)))"
  by pat_completeness auto
termination
  by (relation "measure nat") auto

definition exponent :: "real \<Rightarrow> int" where
  "exponent x =
     (if \<bar>x\<bar> \<ge> 1 then int (bits \<lfloor>\<bar>x\<bar>\<rfloor>) - 1
      else - int (bits (\<lceil>1 / \<bar>x\<bar>\<rceil> - 1)))"

definition pow2 :: "int \<Rightarrow> real" where
  "pow2 e = (if e \<ge> 0 then 2 ^ nat e else 1 / 2 ^ nat (- e))"

definition round_half_even :: "real \<Rightarrow> int" where
  "round_half_even y =
     (let f = \<lfloor>y\<rfloor>; r = y - of_int f
      in if r < 1 / 2 then f
         else if r > 1 / 2 then f + 1
         else if even f then f else f + 1)"

definition fl64 :: "real \<Rightarrow> real" where
  "fl64 x =
     (if x = 0 then 0
      else (let ulp = pow2 (exponent x - 52)
            in of_int (round_half_even (x / ulp)) * ulp))"



















section \<open>Basic facts\<close>

lemmas example_defs = db0_def root_def alice_def bob_def acme_def inv1_def inv2_def inv3_def
  item1_def item2_def item3_def pay1_def pay2_def empty_db_def new_ids_def hash0_def



lemma find_delete_by_same: "find (\<lambda>r. key r = k) (delete_by key k rows) = None"
  by (induction rows) (auto simp: delete_by_def)

lemma find_Some_key: "find (\<lambda>r. key r = k) rows = Some r \<Longrightarrow> key r = k \<and> r \<in> set rows"
  by (induction rows) (auto split: if_splits)


section \<open>Payments and the paid threshold\<close>



text \<open>
  Claim C6. \<open>update_payment\<close>, whatever the payment and the update (a change of status
  from completed to refunded or failed included, and also when it raises), and
  \<open>delete_payment\<close> leave the table of invoices as it was: every invoice keeps its
  \<open>is_paid\<close>, its status and its \<open>total_amount\<close>, so an invoice that was paid stays
  paid when its completed payments are refunded or deleted.
\<close>

theorem payment_update_delete_frame:
  "invoices (db_after d (update_payment d payment_id payment_update)) = invoices d
   \<and> invoices (fst (delete_payment d payment_id)) = invoices d
   \<and> get_invoice (db_after d (update_payment d payment_id payment_update)) invoice_id
       = get_invoice d invoice_id
   \<and> get_invoice (fst (delete_payment d payment_id)) invoice_id = get_invoice d invoice_id"
  by (auto simp: update_payment_def delete_payment_def get_invoice_def Let_def
           split: option.splits prod.splits)

text \<open>Refunding or deleting the completed payment \<open>p1\<close> of invoice \<open>i1\<close>.\<close>

theorem payment_update_delete_frame_witness:
  "get_invoice (db_after db0 (update_payment db0 ''p1'' refund)) ''i1'' = get_invoice db0 ''i1''
   \<and> get_invoice (fst (delete_payment db0 ''p1'')) ''i1'' = get_invoice db0 ''i1''
   \<and> get_payment (db_after db0 (update_payment db0 ''p1'' refund)) ''p1''
       = Some (pay1\<lparr>p_status := Some REFUNDED\<rparr>)
   \<and> get_payment (fst (delete_payment db0 ''p1'')) ''p1'' = None"
proof -
  have "get_payment (db_after db0 (update_payment db0 ''p1'' refund)) ''p1''
          = Some (pay1\<lparr>p_status := Some REFUNDED\<rparr>)"
    by (simp add: update_payment_def get_payment_def refund_def replace_by_def Let_def
          example_defs)
  moreover have "get_payment (fst (delete_payment db0 ''p1'')) ''p1'' = None"
    by (simp add: delete_payment_def get_payment_def delete_by_def example_defs)
  ultimately show ?thesis
    using payment_update_delete_frame [of db0 "''p1''" refund "''i1''"] by simp
qed

section \<open>Registration\<close>

text \<open>
  Claim C10. \<open>register\<close> takes no authenticated caller. For every registration request
  whose email is not in use and whose \<open>is_super_admin\<close> field is true it creates and
  returns a user whose \<open>is_super_admin\<close> flag is true: an anonymous caller can create a
  super-admin account.
\<close>

theorem register_honours_is_super_admin:
  assumes "get_user_by_email d (uc_email user) = None" and "uc_is_super_admin user"
  shows "\<exists>d' db_user. register get_password_hash d uuid user = Inr (d', db_user)
           \<and> db_user \<in> set (users d')
           \<and> u_email db_user = uc_email user
           \<and> u_is_super_admin db_user = Some True
           \<and> is_super_admin db_user"
proof -
  from assms(1) have "\<not> list_ex (\<lambda>u. u_email u = uc_email user) (users d)"
    by (simp add: get_user_by_email_def find_None_iff list_ex_iff)
  with assms show ?thesis
    by (simp add: register_def create_user_def is_super_admin_def Let_def)
qed

theorem register_honours_is_super_admin_witness:
  "get_user_by_email db0 (uc_email eve_request) = None
   \<and> uc_is_super_admin eve_request
   \<and> (\<exists>d' db_user. register hash0 db0 new_ids eve_request = Inr (d', db_user)
           \<and> db_user \<in> set (users d')
           \<and> u_email db_user = uc_email eve_request
           \<and> u_is_super_admin db_user = Some True
           \<and> is_super_admin db_user)"
proof -
  have h1: "get_user_by_email db0 (uc_email eve_request) = None"
    by (simp add: get_user_by_email_def eve_request_def example_defs)
  have h2: "uc_is_super_admin eve_request"
    by (simp add: eve_request_def)
  from register_honours_is_super_admin [OF h1 h2] h1 h2 show ?thesis
    by blast
qed

section \<open>Invoice totals\<close>



lemma db0_tables:
  "users db0 = [root, alice, bob]" "customers db0 = [acme]" "invoices db0 = [inv1, inv2, inv3]"
  "invoice_items db0 = [item1, item2, item3]" "payments db0 = [pay1, pay2]"
  by (simp_all add: db0_def)










text \<open>
  A request that sets quantity or unit price to \<^verbatim>\<open>null\<close> is no partial update in the
  sense above: the multiplication raises and nothing is committed.
\<close>

lemma update_invoice_item_null:
  "query_invoice_item d item_id = Some db_item \<Longrightarrow>
   iu_quantity item_update = Null \<or> iu_unit_price item_update = Null \<Longrightarrow>
   update_invoice_item d item_id item_update = Inl TypeError"
  by (auto simp: update_invoice_item_def Let_def split: option.splits)

section \<open>Deleting an invoice\<close>

lemma foldr_delete_by:
  "foldr (\<lambda>x. delete_by key (key x)) xs rows = filter (\<lambda>r. key r \<notin> set (map key xs)) rows"
  by (induction xs) (auto simp: delete_by_def intro: filter_cong)

text \<open>
  Claim C9. After a successful \<open>delete_invoice\<close> the invoice cannot be fetched any more
  (\<open>get_invoice\<close> returns \<open>None\<close>), every item that belonged to it is gone from the
  table and cannot be fetched either, and no item of the deleted invoice survives.
\<close>

theorem delete_invoice_cascade:
  assumes "delete_invoice d invoice_id = Inr (d', True)"
  shows "get_invoice d' invoice_id = None
         \<and> (\<forall>it\<in>set (invoice_items d). it_invoice_id it = invoice_id \<longrightarrow>
               query_invoice_item d' (it_id it) = None \<and> it \<notin> set (invoice_items d'))
         \<and> (\<forall>it\<in>set (invoice_items d'). it_invoice_id it \<noteq> invoice_id)"
proof -
  from assms obtain db_invoice where
    g: "get_invoice d invoice_id = Some db_invoice"
    and d': "d' = d\<lparr>invoices := delete_by inv_id invoice_id (invoices d),
                    invoice_items :=
                      foldr (\<lambda>it. delete_by it_id (it_id it)) (items_of d db_invoice)
                        (invoice_items d)\<rparr>"
    by (auto simp: delete_invoice_def split: option.splits if_splits)
  from g have k: "inv_id db_invoice = invoice_id"
    using find_Some_key [of inv_id invoice_id "invoices d" db_invoice]
    by (simp add: get_invoice_def)
  have items': "invoice_items d' =
      filter (\<lambda>r. it_id r \<notin> set (map it_id (items_of d db_invoice))) (invoice_items d)"
    by (simp add: d' foldr_delete_by)
  have a: "get_invoice d' invoice_id = None"
    by (simp add: d' get_invoice_def find_delete_by_same)
  have b: "query_invoice_item d' (it_id it) = None \<and> it \<notin> set (invoice_items d')"
    if "it \<in> set (invoice_items d)" "it_invoice_id it = invoice_id" for it
  proof -
    from that k have "it \<in> set (items_of d db_invoice)"
      by (simp add: items_of_def)
    then have "it_id it \<in> set (map it_id (items_of d db_invoice))" by simp
    then show ?thesis
      by (auto simp: items' query_invoice_item_def find_None_iff)
  qed
  have c: "it_invoice_id it \<noteq> invoice_id" if "it \<in> set (invoice_items d')" for it
  proof
    assume e: "it_invoice_id it = invoice_id"
    from that have "it \<in> set (invoice_items d)" by (simp add: items')
    from b [OF this e] that show False by simp
  qed
  from a b c show ?thesis by blast
qed

lemma db1_tables:
  "users db1 = [root, alice, bob]" "customers db1 = [acme]" "invoices db1 = [inv1, inv2, inv3]"
  "invoice_items db1 = [item1, item2, item3]" "payments db1 = [pay2]"
  by (simp_all add: db1_def db0_def)

text \<open>Deleting invoice \<open>i1\<close> removes its items \<open>t1\<close> and \<open>t2\<close>.\<close>

theorem delete_invoice_cascade_witness:
  "delete_invoice db1 ''i1'' = Inr (db1\<lparr>invoices := [inv2, inv3], invoice_items := [item3]\<rparr>, True)
   \<and> get_invoice (db1\<lparr>invoices := [inv2, inv3], invoice_items := [item3]\<rparr>) ''i1'' = None
   \<and> item1 \<in> set (invoice_items db1) \<and> it_invoice_id item1 = ''i1''
   \<and> query_invoice_item (db1\<lparr>invoices := [inv2, inv3], invoice_items := [item3]\<rparr>) ''t1'' = None"
proof -
  have h: "delete_invoice db1 ''i1''
             = Inr (db1\<lparr>invoices := [inv2, inv3], invoice_items := [item3]\<rparr>, True)"
    by (simp add: delete_invoice_def get_invoice_def payments_of_def items_of_def delete_by_def
          db1_tables inv1_def inv2_def inv3_def item1_def item2_def item3_def pay2_def)
  have m: "item1 \<in> set (invoice_items db1)" "it_invoice_id item1 = ''i1''" "it_id item1 = ''t1''"
    by (simp_all add: db1_tables item1_def)
  from delete_invoice_cascade [OF h] m h show ?thesis
    by auto
qed

section \<open>Listing\<close>

text \<open>
  Claim C7, as stated, fails: a caller who is not a super-admin does not always receive
  exactly the entities that they own. Alice owns the invoices \<open>i1\<close> and \<open>i2\<close>; with
  \<open>limit = 1\<close> she receives \<open>i1\<close> only.
\<close>

theorem listing_exactly_owned_counterexample:
  "\<not> is_super_admin alice
   \<and> inv2 \<in> set (invoices db0) \<and> inv_user_id inv2 = u_id alice
   \<and> read_invoices db0 alice 0 1 = [inv1]
   \<and> inv2 \<notin> set (read_invoices db0 alice 0 1)"
  by (simp add: read_invoices_def get_invoices_def is_super_admin_def Let_def db0_tables
        alice_def inv1_def inv2_def inv3_def)

text \<open>
  Claim C7, amended. For every authenticated caller (whose identifier is not the empty
  string), listing invoices or payments returns the page that \<open>skip\<close> and \<open>limit\<close>
  select (at most \<open>limit\<close> rows after the first \<open>skip\<close>) of the entities whose
  \<open>user_id\<close> is the caller's when the caller is not a super-admin, and of the whole table
  when the caller is a super-admin; a listing of payments for a given invoice keeps the
  payments of that invoice only. When \<open>skip = 0\<close> and \<open>limit\<close> is at least the size of
  the table, the listing is exactly those entities.
\<close>

theorem listing_pages:
  assumes "u_id current_user \<noteq> []"
  shows "read_invoices d current_user skip limit
           = take limit (drop skip
               (if is_super_admin current_user then invoices d
                else filter (\<lambda>i. inv_user_id i = u_id current_user) (invoices d)))
         \<and> read_payments d current_user None skip limit
           = take limit (drop skip
               (if is_super_admin current_user then payments d
                else filter (\<lambda>p. p_user_id p = u_id current_user) (payments d)))
         \<and> (invoice_id \<noteq> [] \<longrightarrow>
              read_payments d current_user (Some invoice_id) skip limit
                = take limit (drop skip
                    (filter (\<lambda>p. p_invoice_id p = invoice_id)
                       (if is_super_admin current_user then payments d
                        else filter (\<lambda>p. p_user_id p = u_id current_user) (payments d)))))
         \<and> (length (invoices d) \<le> limit \<longrightarrow>
              read_invoices d current_user 0 limit
                = (if is_super_admin current_user then invoices d
                   else filter (\<lambda>i. inv_user_id i = u_id current_user) (invoices d)))
         \<and> (length (payments d) \<le> limit \<longrightarrow>
              read_payments d current_user None 0 limit
                = (if is_super_admin current_user then payments d
                   else filter (\<lambda>p. p_user_id p = u_id current_user) (payments d)))"
proof -
  have le: "length (filter P xs) \<le> n" if "length xs \<le> n" for P and xs :: "'a list" and n
    using that length_filter_le [of P xs] by linarith
  show ?thesis
    using assms
    by (simp add: read_invoices_def get_invoices_def read_payments_def get_payments_def
          Let_def le)
qed

theorem listing_pages_witness:
  "u_id alice \<noteq> [] \<and> u_id root \<noteq> []
   \<and> read_invoices db0 alice 0 100 = [inv1, inv2]
   \<and> read_invoices db0 alice 1 100 = [inv2]
   \<and> read_invoices db0 root 0 100 = [inv1, inv2, inv3]
   \<and> read_payments db0 alice None 0 100 = [pay1]
   \<and> read_payments db0 root None 0 100 = [pay1, pay2]
   \<and> read_payments db0 root (Some ''i3'') 0 100 = [pay2]"
proof -
  have a: "u_id alice \<noteq> []" "\<not> is_super_admin alice"
    by (simp_all add: alice_def is_super_admin_def)
  have r: "u_id root \<noteq> []" "is_super_admin root"
    by (simp_all add: root_def is_super_admin_def)
  have ids: "u_id alice = ''u1''" by (simp add: alice_def)
  note rows = db0_tables inv1_def inv2_def inv3_def pay1_def pay2_def
  from listing_pages [OF a(1), of db0 0 100 "''i3''"] a(2)
  have "read_invoices db0 alice 0 100 = [inv1, inv2]"
    "read_payments db0 alice None 0 100 = [pay1]"
    by (simp_all add: ids rows)
  moreover
  from listing_pages [OF a(1), of db0 1 100 "''i3''"] a(2)
  have "read_invoices db0 alice 1 100 = [inv2]"
    by (simp add: ids rows)
  moreover
  from listing_pages [OF r(1), of db0 0 100 "''i3''"] r(2)
  have "read_invoices db0 root 0 100 = [inv1, inv2, inv3]"
    "read_payments db0 root None 0 100 = [pay1, pay2]"
    "read_payments db0 root (Some ''i3'') 0 100 = [pay2]"
    by (simp_all add: rows)
  ultimately show ?thesis using a r by blast
qed

section \<open>Forbidden\<close>












section \<open>The accounting invariant\<close>
























section \<open>The accounting invariant on floating-point numbers\<close>












text \<open>Some values of \<open>fl64\<close>: 0.1, 0.1 + 0.2, 0.2 + 0.3, and two ties.\<close>

lemma fl64_examples:
  "fl64 (1 / 10) = 3602879701896397 / 36028797018963968"
  "fl64 (3602879701896397 / 36028797018963968) = 3602879701896397 / 36028797018963968"
  "fl64 (fl64 (1 / 10) + fl64 (2 / 10)) = 1351079888211149 / 4503599627370496"
  "fl64 (fl64 (2 / 10) + fl64 (3 / 10)) = 1 / 2"
  "fl64 1 = 1" "fl64 (- 3) = - 3" "fl64 9007199254740993 = 9007199254740992"
  "fl64 9007199254740995 = 9007199254740996"
  by code_simp+






end
